theory Spec2Isabelle
  imports Complex_Main
begin

section \<open>Python values shared by the three scripts\<close>

text \<open>
  The scripts of the repository are \<^verbatim>\<open>soilMail.py\<close> (an hourly polling loop that
  mails a moisture reading), \<^verbatim>\<open>soilMeas.py\<close> (an ADC sampler writing a CSV file) and
  \<^verbatim>\<open>SoilSensor_Prediction_Email.py\<close> (a GPIO callback that appends a reading to a CSV
  history, fits a small network and mails a three step forecast).

  Python floats are modelled as \<^typ>\<open>real\<close> and Python integers as \<^typ>\<open>int\<close>.
  An exception is a value of \<open>exn\<close>; the type stands for the subclasses of Python's
  \<^verbatim>\<open>Exception\<close>, which is what every \<^verbatim>\<open>except Exception\<close> handler of the
  scripts catches; the signals outside it (\<^verbatim>\<open>KeyboardInterrupt\<close>, which ends the
  programs) are not part of the model. A function that may raise returns \<open>exn + 'a\<close>,
  with \<open>Inl\<close> the raised exception.
\<close>

datatype exn =
    IndexError
  | KeyError
  | ValueError
  | FileNotFoundError
  | OSError
  | SMTPException

text \<open>
  Python's \<^verbatim>\<open>round(x, ndigits)\<close> rounds to the nearest multiple of
  \<open>10 ^ (- ndigits)\<close>, a tie going to the even neighbour.
\<close>

definition round_half_even :: "real \<Rightarrow> int" where
  "round_half_even x =
     (let f = \<lfloor>x\<rfloor>; r = x - of_int f
      in if r < 1 / 2 then f
         else if 1 / 2 < r then f + 1
         else if even f then f else f + 1)"

definition py_round :: "real \<Rightarrow> nat \<Rightarrow> real" where
  "py_round x ndigits = of_int (round_half_even (x * 10 ^ ndigits)) / 10 ^ ndigits"


section \<open>soilMail.py: the polling loop with an elapsed-hour threshold\<close>

text \<open>
  \<^verbatim>\<open>read_soil_moisture\<close> returns either the rounded percentage or the string
  \<^verbatim>\<open>"Reading failed"\<close>.
\<close>

datatype reading = Percent real | Reading_failed

text \<open>
  What one iteration of the loop does to the outside world, in order. \<open>Smtp_attempt\<close> is
  the SMTP conversation opened by \<^verbatim>\<open>send_email\<close> for the given reading; the three
  time difference lines carry the value of \<^verbatim>\<open>difference\<close> that the script prints.
\<close>

datatype mail_event =
    Status_line int int
  | Preparing_to_send int
  | No_email_sent int
  | Print_read_failed exn
  | Smtp_attempt reading
  | Print_email_sent
  | Print_email_failed exn

text \<open>
  What the outside world gives to one iteration: the hour of \<^verbatim>\<open>time.localtime\<close>, the
  byte read from the PCF8591 or the exception of the I2C bus, and the exception raised inside
  the SMTP conversation, if any.
\<close>

record mail_env =
  tm_hour :: int
  i2c :: "exn + int"
  smtp :: "exn option"

definition mail_read_soil_moisture :: "exn + int \<Rightarrow> mail_event list \<times> reading" where
  "mail_read_soil_moisture bus =
     (case bus of
        Inr raw_value \<Rightarrow>
          (let moisture_percent = 100 - (real_of_int raw_value / 255 * 100)
           in ([], Percent (py_round moisture_percent 2)))
      | Inl e \<Rightarrow> ([Print_read_failed e], Reading_failed))"

text \<open>The body of the \<^verbatim>\<open>try\<close> block of \<^verbatim>\<open>send_email\<close>.\<close>

definition mail_smtp_conversation :: "exn option \<Rightarrow> exn + mail_event list" where
  "mail_smtp_conversation outcome =
     (case outcome of
        None \<Rightarrow> Inr [Print_email_sent]
      | Some e \<Rightarrow> Inl e)"

definition mail_send_email :: "exn option \<Rightarrow> reading \<Rightarrow> exn + mail_event list" where
  "mail_send_email outcome moisture =
     (case mail_smtp_conversation outcome of
        Inr evs \<Rightarrow> Inr (Smtp_attempt moisture # evs)
      | Inl e \<Rightarrow> Inr [Smtp_attempt moisture, Print_email_failed e])"

text \<open>The value of the local variable \<^verbatim>\<open>difference\<close> after the cross-day correction.\<close>

definition difference :: "int \<Rightarrow> int \<Rightarrow> int" where
  "difference Current_Value lastValue =
     (let d = Current_Value - lastValue
      in if d < 0 then d + 24 else d)"

text \<open>
  The core judgment of the loop: from \<^verbatim>\<open>lastValue\<close> and \<^verbatim>\<open>Current_Value\<close> to
  the events of the iteration and the new \<^verbatim>\<open>lastValue\<close>.
\<close>

definition core_judgment :: "int \<Rightarrow> int \<Rightarrow> mail_env \<Rightarrow> exn + (mail_event list \<times> int)" where
  "core_judgment lastValue Current_Value env =
     (if lastValue = Current_Value then Inr ([], lastValue)
      else if 3 < difference Current_Value lastValue then
        (let (evs_read, moisture) = mail_read_soil_moisture (i2c env)
         in case mail_send_email (smtp env) moisture of
              Inl e \<Rightarrow> Inl e
            | Inr evs_send \<Rightarrow>
                Inr (Preparing_to_send (difference Current_Value lastValue) # evs_read @ evs_send,
                     Current_Value))
      else Inr ([No_email_sent (difference Current_Value lastValue)], Current_Value))"

definition startTime :: "int \<Rightarrow> int" where
  "startTime hour_at_start = hour_at_start + 8"

definition loop_body :: "int \<Rightarrow> mail_env \<Rightarrow> exn + (mail_event list \<times> int)" where
  "loop_body lastValue env =
     (let Current_Value = tm_hour env + 8
      in case core_judgment lastValue Current_Value env of
           Inl e \<Rightarrow> Inl e
         | Inr (evs, lastValue') \<Rightarrow> Inr (Status_line Current_Value lastValue # evs, lastValue'))"

text \<open>The SMTP conversations an iteration opened.\<close>

fun is_smtp_attempt :: "mail_event \<Rightarrow> bool" where
  "is_smtp_attempt (Smtp_attempt m) = True"
| "is_smtp_attempt ev = False"

definition smtp_attempts :: "mail_event list \<Rightarrow> mail_event list" where
  "smtp_attempts evs = filter is_smtp_attempt evs"


section \<open>soilMeas.py: the ADC sampler\<close>

text \<open>
  \<^verbatim>\<open>read_soil_moisture\<close> of the sampler returns the triple of the raw ADC value, the
  voltage and the moisture percentage, or a triple of \<^verbatim>\<open>None\<close> when anything inside
  its \<^verbatim>\<open>try\<close> block raises. The argument is what \<^verbatim>\<open>adc.read_adc\<close> does: it
  returns an integer or raises.
\<close>

definition meas_read_soil_moisture ::
  "exn + int \<Rightarrow> int option \<times> real option \<times> real option" where
  "meas_read_soil_moisture adc =
     (case adc of
        Inr adc_value \<Rightarrow>
          (let voltage = (real_of_int adc_value / 65535) * 5;
               moisture_percent = py_round (100 - (voltage / 5 * 100)) 2;
               moisture_percent = max 0 (min 100 moisture_percent)
           in (Some adc_value, Some voltage, Some moisture_percent))
      | Inl e \<Rightarrow> (None, None, None))"


section \<open>SoilSensor\_Prediction\_Email.py: history, windows, forecast and alert\<close>

text \<open>A row of the CSV history and the data frame read from it.\<close>

record sample =
  date :: string
  moisture :: real
  temperature :: real
  rainfall :: real
  light :: real
  irrigation :: real

type_synonym dataframe = "sample list"

definition SEQ_LENGTH :: nat where
  "SEQ_LENGTH = 3"

text \<open>
  \<^verbatim>\<open>load_and_update_data\<close> reads the CSV file, parses its date column, appends one row
  that repeats the covariates of the last row, and writes the file back. The file is \<open>None\<close>
  when it does not exist. \<^verbatim>\<open>pd.to_datetime\<close> of pandas is the parameter
  \<open>to_datetime\<close>: on the whole column of date texts it either raises or gives, for each
  text, the text under which the parsed timestamp is written back (pandas infers one format
  from the column, so the outcome depends on the column as a whole). A row of the data frame
  holds its date as that text. \<^verbatim>\<open>df.iloc[-1]\<close> raises on a file without rows. The new
  row keeps \<^verbatim>\<open>current_time\<close> as the string it is. The result is the new content of the
  file together with the returned data frame or the exception.
\<close>

definition load_and_update_data ::
  "(string list \<Rightarrow> exn + (string \<Rightarrow> string)) \<Rightarrow> string \<Rightarrow> real \<Rightarrow> dataframe option \<Rightarrow>
   dataframe option \<times> (exn + dataframe)" where
  "load_and_update_data to_datetime current_time real_time_moisture file =
     (case file of
        None \<Rightarrow> (file, Inl FileNotFoundError)
      | Some df \<Rightarrow>
          (case to_datetime (map date df) of
             Inl e \<Rightarrow> (file, Inl e)
           | Inr parsed \<Rightarrow>
               (let df = map (\<lambda>row. row\<lparr>date := parsed (date row)\<rparr>) df
                in if df = [] then (file, Inl IndexError)
                   else
                     (let last_row = last df;
                          new_data = \<lparr>date = current_time, moisture = real_time_moisture,
                                      temperature = temperature last_row,
                                      rainfall = rainfall last_row,
                                      light = light last_row, irrigation = 0\<rparr>;
                          df = df @ [new_data]
                      in (Some df, Inr df)))))"

text \<open>
  \<^verbatim>\<open>MinMaxScaler(feature_range=(0, 1))\<close> of scikit-learn on one column: fitting
  stores \<^verbatim>\<open>scale_\<close> as \<open>1 / (data_max - data_min)\<close> and \<^verbatim>\<open>min_\<close> as
  \<open>0 - data_min * scale_attr\<close>; fitting an empty column raises. The two attributes are the
  fields \<open>scale_attr\<close> and \<open>min_attr\<close>. Before the division,
  \<^verbatim>\<open>_handle_zeros_in_scale\<close> replaces by 1 every range below ten times the machine
  epsilon of the 64 bit floats, which is \<open>2 ^ (- 52)\<close>.
\<close>

record scaler =
  scale_attr :: real
  min_attr :: real

fun data_min :: "real list \<Rightarrow> real" where
  "data_min [] = 0"
| "data_min (x # xs) = fold min xs x"

fun data_max :: "real list \<Rightarrow> real" where
  "data_max [] = 0"
| "data_max (x # xs) = fold max xs x"

definition float64_eps :: real where
  "float64_eps = 1 / 2 ^ 52"

definition handle_zeros_in_scale :: "real \<Rightarrow> real" where
  "handle_zeros_in_scale s = (if s < 10 * float64_eps then 1 else s)"

definition scaler_fit :: "real list \<Rightarrow> exn + scaler" where
  "scaler_fit column =
     (if column = [] then Inl ValueError
      else
        (let data_range = data_max column - data_min column;
             sc = (1 - 0) / handle_zeros_in_scale data_range
         in Inr \<lparr>scale_attr = sc, min_attr = 0 - data_min column * sc\<rparr>))"

definition transform :: "scaler \<Rightarrow> real \<Rightarrow> real" where
  "transform s x = x * scale_attr s + min_attr s"

definition inverse_transform :: "scaler \<Rightarrow> real \<Rightarrow> real" where
  "inverse_transform s x = (x - min_attr s) / scale_attr s"

definition fit_transform :: "real list \<Rightarrow> exn + (scaler \<times> real list)" where
  "fit_transform column =
     (case scaler_fit column of
        Inl e \<Rightarrow> Inl e
      | Inr s \<Rightarrow> Inr (s, map (transform s) column))"

text \<open>
  The Python slice \<^verbatim>\<open>data[a:b]\<close> for \<open>0 \<le> a\<close> and \<open>0 \<le> b\<close> (it stops at the end of
  the list), and the index \<^verbatim>\<open>data[i]\<close> for \<open>0 \<le> i\<close>, which raises out of range.
\<close>

definition slice :: "'a list \<Rightarrow> nat \<Rightarrow> nat \<Rightarrow> 'a list" where
  "slice data a b = take (b - a) (drop a data)"

definition index :: "'a list \<Rightarrow> nat \<Rightarrow> exn + 'a" where
  "index data i = (if i < length data then Inr (data ! i) else Inl IndexError)"

text \<open>
  \<^verbatim>\<open>create_sequences\<close>: the loop over \<^verbatim>\<open>range(len(data) - seq_len)\<close>, appending to
  \<open>X\<close> and \<open>y\<close>. The range is empty when \<open>len(data) - seq_len\<close> is not positive, which is
  what the truncating subtraction of \<^typ>\<open>nat\<close> gives as well.
\<close>

fun create_sequences_loop ::
  "real list \<Rightarrow> nat \<Rightarrow> nat list \<Rightarrow> real list list \<times> real list \<Rightarrow>
   exn + (real list list \<times> real list)" where
  "create_sequences_loop data seq_len [] (X, y) = Inr (X, y)"
| "create_sequences_loop data seq_len (i # rest) (X, y) =
     (case index data (i + seq_len) of
        Inl e \<Rightarrow> Inl e
      | Inr target \<Rightarrow>
          create_sequences_loop data seq_len rest
            (X @ [slice data i (i + seq_len)], y @ [target]))"

definition create_sequences :: "real list \<Rightarrow> nat \<Rightarrow> exn + (real list list \<times> real list)" where
  "create_sequences data seq_len =
     create_sequences_loop data seq_len [0..<length data - seq_len] ([], [])"

text \<open>
  \<^verbatim>\<open>X.reshape(X.shape[0], X.shape[1], 1)\<close>: the array built from an empty list of
  windows has the shape \<open>(0,)\<close>, so reading \<^verbatim>\<open>X.shape[1]\<close> raises.
\<close>

definition reshape_X :: "real list list \<Rightarrow> exn + real list list" where
  "reshape_X X = (if X = [] then Inl IndexError else Inr X)"

text \<open>
  The recursive prediction: three rounds, each asking the fitted network for the next
  normalized value, storing its de-normalized value and moving the window.
  \<^verbatim>\<open>last_seq.reshape(1, SEQ_LENGTH, 1)\<close> raises unless the window has \<open>SEQ_LENGTH\<close>
  values.
\<close>

fun predict_loop ::
  "(real list \<Rightarrow> real) \<Rightarrow> scaler \<Rightarrow> nat \<Rightarrow> real list \<Rightarrow> real list \<Rightarrow> exn + real list" where
  "predict_loop model s 0 last_seq predictions = Inr predictions"
| "predict_loop model s (Suc n) last_seq predictions =
     (if length last_seq \<noteq> SEQ_LENGTH then Inl ValueError
      else
        (let next_pred_scaled = model last_seq
         in predict_loop model s n (tl last_seq @ [next_pred_scaled])
              (predictions @ [inverse_transform s next_pred_scaled])))"

text \<open>
  \<^verbatim>\<open>build_and_predict_model\<close>. The network that \<^verbatim>\<open>model.fit\<close> leaves behind is
  the parameter \<open>fit\<close>: an arbitrary function from the training windows and targets to the
  prediction function, since training starts from random weights. The result is the
  dictionary with the keys \<^verbatim>\<open>day1\<close>, \<^verbatim>\<open>day2\<close>, \<^verbatim>\<open>day3\<close>, in insertion order.
\<close>

definition build_and_predict_model ::
  "(real list list \<Rightarrow> real list \<Rightarrow> real list \<Rightarrow> real) \<Rightarrow> dataframe \<Rightarrow>
   exn + (string \<times> real) list" where
  "build_and_predict_model fit df =
     (case fit_transform (map moisture df) of
        Inl e \<Rightarrow> Inl e
      | Inr (s, moisture_scaled) \<Rightarrow>
          (case create_sequences moisture_scaled SEQ_LENGTH of
             Inl e \<Rightarrow> Inl e
           | Inr (X, y) \<Rightarrow>
               (case reshape_X X of
                  Inl e \<Rightarrow> Inl e
                | Inr X \<Rightarrow>
                    (let model = fit X y;
                         last_seq = drop (length moisture_scaled - SEQ_LENGTH) moisture_scaled
                     in case predict_loop model s 3 last_seq [] of
                          Inl e \<Rightarrow> Inl e
                        | Inr predictions \<Rightarrow>
                            (case index predictions 0 of Inl e \<Rightarrow> Inl e | Inr p0 \<Rightarrow>
                             case index predictions 1 of Inl e \<Rightarrow> Inl e | Inr p1 \<Rightarrow>
                             case index predictions 2 of Inl e \<Rightarrow> Inl e | Inr p2 \<Rightarrow>
                               Inr [(''day1'', p0), (''day2'', p1), (''day3'', p2)])))))"

text \<open>
  The events of the callback: the two status prints and the SMTP conversation, which
  carries the status line chosen from the GPIO level, the reading and the forecast.
\<close>

datatype pred_event =
    Print_detected real
  | Print_prediction "(string \<times> real) list"
  | Pred_smtp_attempt bool real "(string \<times> real) list"
  | Pred_print_email_sent
  | Pred_print_email_failed exn

text \<open>
  What the outside world gives to one run of the callback: the level of the GPIO pin at
  each of its three reads (true is dry), the draw of \<^verbatim>\<open>np.random.uniform\<close> for the given
  bounds, the date parser of pandas, the clock, the fitted network and the exception of the
  SMTP conversation, if any.
\<close>

record callback_env =
  gpio_at_reading :: bool
  gpio_at_decision :: bool
  gpio_at_email :: bool
  uniform :: "real \<Rightarrow> real \<Rightarrow> real"
  pd_to_datetime :: "string list \<Rightarrow> exn + (string \<Rightarrow> string)"
  now_text :: string
  now_hour :: int
  network :: "real list list \<Rightarrow> real list \<Rightarrow> real list \<Rightarrow> real"
  smtp_outcome :: "exn option"

definition pred_smtp_conversation :: "exn option \<Rightarrow> exn + pred_event list" where
  "pred_smtp_conversation outcome =
     (case outcome of
        None \<Rightarrow> Inr [Pred_print_email_sent]
      | Some e \<Rightarrow> Inl e)"

definition lookup_key :: "(string \<times> real) list \<Rightarrow> string \<Rightarrow> exn + real" where
  "lookup_key d k = (case map_of d k of None \<Rightarrow> Inl KeyError | Some v \<Rightarrow> Inr v)"

definition pred_send_email ::
  "callback_env \<Rightarrow> real \<Rightarrow> (string \<times> real) list \<Rightarrow> exn + pred_event list" where
  "pred_send_email env real_time_moisture prediction_result =
     (let status = gpio_at_email env
      in case lookup_key prediction_result ''day1'' of Inl e \<Rightarrow> Inl e | Inr d1 \<Rightarrow>
         case lookup_key prediction_result ''day2'' of Inl e \<Rightarrow> Inl e | Inr d2 \<Rightarrow>
         case lookup_key prediction_result ''day3'' of Inl e \<Rightarrow> Inl e | Inr d3 \<Rightarrow>
         (case pred_smtp_conversation (smtp_outcome env) of
            Inr evs \<Rightarrow> Inr (Pred_smtp_attempt status real_time_moisture prediction_result # evs)
          | Inl e \<Rightarrow>
              Inr [Pred_smtp_attempt status real_time_moisture prediction_result,
                   Pred_print_email_failed e]))"

text \<open>
  The last statement of the callback: send when the pin reads dry; when it reads wet, send
  only in the hours 8 and 20.
\<close>

definition dispatch ::
  "callback_env \<Rightarrow> real \<Rightarrow> (string \<times> real) list \<Rightarrow> exn + pred_event list" where
  "dispatch env real_time_moisture prediction_result =
     (if gpio_at_decision env then pred_send_email env real_time_moisture prediction_result
      else
        (let current_hour = now_hour env
         in if current_hour \<in> set [8, 20]
            then pred_send_email env real_time_moisture prediction_result
            else Inr []))"

text \<open>
  The callback returns the new content of the CSV file, the events that happened, and the
  exception that left the callback, if any.
\<close>

definition moisture_callback ::
  "callback_env \<Rightarrow> dataframe option \<Rightarrow> dataframe option \<times> pred_event list \<times> exn option" where
  "moisture_callback env file =
     (let real_time_moisture =
            (if gpio_at_reading env then uniform env 30 35 else uniform env 38 45);
          evs_detected = [Print_detected real_time_moisture]
      in case load_and_update_data (pd_to_datetime env) (now_text env) real_time_moisture file of
           (file', Inl e) \<Rightarrow> (file', evs_detected, Some e)
         | (file', Inr df_updated) \<Rightarrow>
             (case build_and_predict_model (network env) df_updated of
                Inl e \<Rightarrow> (file', evs_detected, Some e)
              | Inr prediction_result \<Rightarrow>
                  (let evs_predicted = evs_detected @ [Print_prediction prediction_result]
                   in case dispatch env real_time_moisture prediction_result of
                        Inl e \<Rightarrow> (file', evs_predicted, Some e)
                      | Inr evs \<Rightarrow> (file', evs_predicted @ evs, None))))"

fun is_pred_smtp_attempt :: "pred_event \<Rightarrow> bool" where
  "is_pred_smtp_attempt (Pred_smtp_attempt st m p) = True"
| "is_pred_smtp_attempt ev = False"

text \<open>Whether a run of the dispatch opened an SMTP conversation.\<close>

definition should_send :: "exn + pred_event list \<Rightarrow> bool" where
  "should_send r = (case r of Inl e \<Rightarrow> False | Inr evs \<Rightarrow> filter is_pred_smtp_attempt evs \<noteq> [])"


section \<open>Properties of the polling loop\<close>

lemma mail_send_email_returns:
  "\<exists>evs. mail_send_email outcome m = Inr (Smtp_attempt m # evs)"
  by (simp add: mail_send_email_def mail_smtp_conversation_def split: option.splits)

lemma core_judgment_same_hour:
  "core_judgment h h env = Inr ([], h)"
  by (simp add: core_judgment_def)

lemma core_judgment_below_threshold:
  "c \<noteq> l \<Longrightarrow> \<not> 3 < difference c l \<Longrightarrow>
   core_judgment l c env = Inr ([No_email_sent (difference c l)], c)"
  by (simp add: core_judgment_def)

lemma core_judgment_above_threshold:
  assumes "c \<noteq> l" and "3 < difference c l"
  shows "\<exists>evs. core_judgment l c env =
           Inr (Preparing_to_send (difference c l)
                  # fst (mail_read_soil_moisture (i2c env))
                  @ Smtp_attempt (snd (mail_read_soil_moisture (i2c env))) # evs, c)"
proof -
  obtain evs where
    "mail_send_email (smtp env) (snd (mail_read_soil_moisture (i2c env))) =
       Inr (Smtp_attempt (snd (mail_read_soil_moisture (i2c env))) # evs)"
    using mail_send_email_returns by blast
  with assms show ?thesis
    by (simp add: core_judgment_def split_beta)
qed

lemma core_judgment_advances:
  "c \<noteq> l \<Longrightarrow> \<exists>evs. core_judgment l c env = Inr (evs, c)"
  using core_judgment_below_threshold [of c l env] core_judgment_above_threshold [of c l env]
  by (cases "3 < difference c l") auto

lemma difference_shift:
  "difference (c + k) (l + k) = difference c l"
  by (simp add: difference_def)

lemma core_judgment_shift:
  "\<exists>evs w. core_judgment l c env = Inr (evs, w) \<and>
           core_judgment (l + k) (c + k) env = Inr (evs, w + k)"
proof (cases "c = l")
  case True
  then show ?thesis by (simp add: core_judgment_def)
next
  case False
  show ?thesis
  proof (cases "3 < difference c l")
    case True
    obtain evs where
      "mail_send_email (smtp env) (snd (mail_read_soil_moisture (i2c env))) = Inr evs"
      using mail_send_email_returns by blast
    with False True show ?thesis
      by (simp add: core_judgment_def difference_shift split_beta)
  next
    case below: False
    with False show ?thesis
      by (simp add: core_judgment_def difference_shift)
  qed
qed

text \<open>
  C5. The hour difference of the polling loop is \<open>current - last\<close>, with 24 added when
  that is negative. For last 23 and current 1 the difference is 2, which is not above the
  threshold 3: nothing is sent and the stored hour becomes 1. For last 6 and current 10 the
  difference is 4: the reading is mailed and the stored hour becomes 10. The same holds for
  the loop body on the clock hours 23 then 1, and 6 then 10, where both stored values carry
  the offset 8.
\<close>

theorem strategy_b_hour_difference:
  "difference c l = (if c - l < 0 then c - l + 24 else c - l)
   \<and> difference 1 23 = 2 \<and> \<not> 3 < difference 1 23
   \<and> core_judgment 23 1 env = Inr ([No_email_sent 2], 1)
   \<and> loop_body (startTime 23) (env\<lparr>tm_hour := 1\<rparr>) = Inr ([Status_line 9 31, No_email_sent 2], 9)
   \<and> difference 10 6 = 4 \<and> 3 < difference 10 6
   \<and> (\<exists>evs. core_judgment 6 10 env = Inr (Preparing_to_send 4 # evs, 10)
           \<and> smtp_attempts evs \<noteq> []
           \<and> loop_body (startTime 6) (env\<lparr>tm_hour := 10\<rparr>) =
               Inr (Status_line 18 14 # Preparing_to_send 4 # evs, 18))"
proof -
  have d1: "difference 1 23 = 2" and d2: "difference 10 6 = 4"
    and d3: "difference 9 31 = 2" and d4: "difference 18 14 = 4"
    by (simp_all add: difference_def)
  have general: "difference c l = (if c - l < 0 then c - l + 24 else c - l)"
    by (simp add: difference_def Let_def)
  have no_send: "core_judgment 23 1 env = Inr ([No_email_sent 2], 1)"
    using core_judgment_below_threshold [of 1 23 env] by (simp add: d1)
  have no_send_loop:
    "loop_body (startTime 23) (env\<lparr>tm_hour := 1\<rparr>) = Inr ([Status_line 9 31, No_email_sent 2], 9)"
    using core_judgment_below_threshold [of 9 31 "env\<lparr>tm_hour := 1\<rparr>"]
    by (simp add: loop_body_def startTime_def d3)
  obtain evs where send:
    "core_judgment 6 10 env =
       Inr (Preparing_to_send 4 # fst (mail_read_soil_moisture (i2c env))
              @ Smtp_attempt (snd (mail_read_soil_moisture (i2c env))) # evs, 10)"
    using core_judgment_above_threshold [of 10 6 env] by (auto simp: d2)
  have shifted:
    "core_judgment 14 18 (env\<lparr>tm_hour := 10\<rparr>) =
       Inr (Preparing_to_send 4 # fst (mail_read_soil_moisture (i2c env))
              @ Smtp_attempt (snd (mail_read_soil_moisture (i2c env))) # evs, 18)"
    using send by (simp add: core_judgment_def d2 d4 split_beta split: sum.splits)
  let ?evs = "fst (mail_read_soil_moisture (i2c env))
                @ Smtp_attempt (snd (mail_read_soil_moisture (i2c env))) # evs"
  have "core_judgment 6 10 env = Inr (Preparing_to_send 4 # ?evs, 10)
        \<and> smtp_attempts ?evs \<noteq> []
        \<and> loop_body (startTime 6) (env\<lparr>tm_hour := 10\<rparr>) =
            Inr (Status_line 18 14 # Preparing_to_send 4 # ?evs, 18)"
    using send shifted by (simp add: smtp_attempts_def loop_body_def startTime_def)
  then have send_part:
    "\<exists>evs. core_judgment 6 10 env = Inr (Preparing_to_send 4 # evs, 10)
          \<and> smtp_attempts evs \<noteq> []
          \<and> loop_body (startTime 6) (env\<lparr>tm_hour := 10\<rparr>) =
              Inr (Status_line 18 14 # Preparing_to_send 4 # evs, 18)"
    by blast
  show ?thesis
    using general d1 d2 no_send no_send_loop send_part by simp
qed

text \<open>
  C6. Whenever the current hour differs from the stored hour, the iteration returns and
  leaves the current hour stored, whatever the difference is and whatever the SMTP
  conversation and the sensor do.
\<close>

theorem strategy_b_watermark_advances:
  assumes "Current_Value \<noteq> lastValue"
  shows "\<exists>evs. core_judgment lastValue Current_Value (env\<lparr>smtp := outcome, i2c := bus\<rparr>) =
           Inr (evs, Current_Value)"
  using assms core_judgment_advances by blast

theorem strategy_b_watermark_advances_witness:
  "(10::int) \<noteq> 6 \<and> (1::int) \<noteq> 23
   \<and> (\<exists>evs. core_judgment 6 10 (\<lparr>tm_hour = 2, i2c = Inr 128, smtp = None\<rparr>
               \<lparr>smtp := Some SMTPException, i2c := Inl OSError\<rparr>) = Inr (evs, 10))
   \<and> (\<exists>evs. core_judgment 23 1 (\<lparr>tm_hour = 17, i2c = Inr 128, smtp = None\<rparr>
               \<lparr>smtp := None, i2c := Inr 128\<rparr>) = Inr (evs, 1))"
  using strategy_b_watermark_advances
          [where Current_Value = 10 and lastValue = 6
             and env = "\<lparr>tm_hour = 2, i2c = Inr 128, smtp = None\<rparr>"
             and outcome = "Some SMTPException" and bus = "Inl OSError"]
        strategy_b_watermark_advances
          [where Current_Value = 1 and lastValue = 23
             and env = "\<lparr>tm_hour = 17, i2c = Inr 128, smtp = None\<rparr>"
             and outcome = None and bus = "Inr 128"]
  by simp

text \<open>
  C7. When the current hour equals the stored hour, the judgment does nothing: no event,
  no SMTP conversation, and the stored hour stays. The loop body only prints its status
  line, and running it again in the same hour gives the same result.
\<close>

theorem strategy_b_same_hour_noop:
  "core_judgment h h env = Inr ([], h)
   \<and> smtp_attempts [] = []
   \<and> loop_body (tm_hour env + 8) env =
       Inr ([Status_line (tm_hour env + 8) (tm_hour env + 8)], tm_hour env + 8)"
  by (simp add: core_judgment_same_hour loop_body_def smtp_attempts_def Let_def)

text \<open>
  C10. Adding one fixed offset to the current and to the stored hour changes neither the
  difference nor the events of the judgment; the stored hour is the shifted one. With the
  offset 8 of the script, the loop body started from \<open>startTime l\<close> at the clock hour \<open>c\<close>
  decides as the judgment on \<open>l\<close> and \<open>c\<close> does, while the stored values can exceed 23:
  the start hour 20 is stored as 28.
\<close>

theorem strategy_b_offset_invariant:
  "difference (c + k) (l + k) = difference c l
   \<and> (\<exists>evs w. core_judgment l c env = Inr (evs, w)
             \<and> core_judgment (l + k) (c + k) env = Inr (evs, w + k)
             \<and> loop_body (startTime l) (env\<lparr>tm_hour := c\<rparr>) =
                 Inr (Status_line (c + 8) (l + 8) # evs, w + 8))
   \<and> startTime 20 = 28 \<and> 23 < startTime 20"
proof -
  obtain evs w where j: "core_judgment l c env = Inr (evs, w)"
    and s: "core_judgment (l + k) (c + k) env = Inr (evs, w + k)"
    using core_judgment_shift [of l c env k] by blast
  obtain evs' w' where j': "core_judgment l c env = Inr (evs', w')"
    and s': "core_judgment (l + 8) (c + 8) env = Inr (evs', w' + 8)"
    using core_judgment_shift [of l c env 8] by blast
  from j j' have same: "evs' = evs" "w' = w" by simp_all
  have "core_judgment (l + 8) (c + 8) (env\<lparr>tm_hour := c\<rparr>) = core_judgment (l + 8) (c + 8) env"
    by (simp add: core_judgment_def)
  with s' same have
    "loop_body (startTime l) (env\<lparr>tm_hour := c\<rparr>) = Inr (Status_line (c + 8) (l + 8) # evs, w + 8)"
    by (simp add: loop_body_def startTime_def)
  with j s show ?thesis
    by (auto simp: difference_shift startTime_def)
qed


section \<open>Properties of the sampler\<close>

text \<open>
  C9. When the ADC read raises, the sampler returns the triple of \<^verbatim>\<open>None\<close>. Otherwise
  it returns the raw value, the voltage and a moisture percentage that is the rounded
  conversion passed through \<open>max 0 (min 100 \<cdot>)\<close>, so it lies between 0 and 100 for every
  raw ADC value.
\<close>

theorem meas_read_soil_moisture_clamped:
  "meas_read_soil_moisture (Inl e) = (None, None, None)
   \<and> (\<exists>v m. meas_read_soil_moisture (Inr adc_value) = (Some adc_value, Some v, Some m)
          \<and> v = real_of_int adc_value / 65535 * 5
          \<and> m = max 0 (min 100 (py_round (100 - (v / 5 * 100)) 2))
          \<and> 0 \<le> m \<and> m \<le> 100)"
proof -
  let ?v = "real_of_int adc_value / 65535 * 5"
  let ?m = "max 0 (min 100 (py_round (100 - (?v / 5 * 100)) 2))"
  have "meas_read_soil_moisture (Inr adc_value) = (Some adc_value, Some ?v, Some ?m)"
    by (simp add: meas_read_soil_moisture_def Let_def)
  moreover have "0 \<le> ?m" and "?m \<le> 100"
    by simp_all
  moreover have "meas_read_soil_moisture (Inl e) = (None, None, None)"
    by (simp add: meas_read_soil_moisture_def)
  ultimately show ?thesis by blast
qed


section \<open>Properties of the windows and the forecast\<close>

lemma create_sequences_loop_eq:
  "(\<And>i. i \<in> set idxs \<Longrightarrow> i + n < length data) \<Longrightarrow>
   create_sequences_loop data n idxs (X, y) =
     Inr (X @ map (\<lambda>i. slice data i (i + n)) idxs, y @ map (\<lambda>i. data ! (i + n)) idxs)"
  by (induction idxs arbitrary: X y) (simp_all add: index_def)

lemma create_sequences_eq:
  "create_sequences data n =
     Inr (map (\<lambda>i. take n (drop i data)) [0..<length data - n],
          map (\<lambda>i. data ! (i + n)) [0..<length data - n])"
proof -
  have "create_sequences_loop data n [0..<length data - n] ([], []) =
          Inr ([] @ map (\<lambda>i. slice data i (i + n)) [0..<length data - n],
               [] @ map (\<lambda>i. data ! (i + n)) [0..<length data - n])"
    by (rule create_sequences_loop_eq) auto
  then show ?thesis
    by (simp add: create_sequences_def slice_def)
qed

lemma handle_zeros_in_scale_nonzero: "handle_zeros_in_scale r \<noteq> 0"
  by (auto simp: handle_zeros_in_scale_def float64_eps_def)

lemma inverse_transform_fitted:
  assumes "scaler_fit column = Inr s"
  shows "inverse_transform s p =
           data_min column + p * handle_zeros_in_scale (data_max column - data_min column)"
proof -
  let ?h = "handle_zeros_in_scale (data_max column - data_min column)"
  have h: "?h \<noteq> 0" by (rule handle_zeros_in_scale_nonzero)
  from assms have s: "s = \<lparr>scale_attr = 1 / ?h, min_attr = 0 - data_min column * (1 / ?h)\<rparr>"
    by (auto simp: scaler_fit_def Let_def split: if_splits)
  show ?thesis
    using h by (simp add: s inverse_transform_def field_simps)
qed

lemma predict_loop_three:
  assumes "length w = SEQ_LENGTH"
  shows "predict_loop model s 3 w [] =
           Inr [inverse_transform s (model w),
                inverse_transform s (model (tl w @ [model w])),
                inverse_transform s (model (tl (tl w @ [model w]) @ [model (tl w @ [model w])]))]"
proof -
  have len: "length w = 3" using assms by (simp add: SEQ_LENGTH_def)
  then have "w \<noteq> []" by auto
  with len show ?thesis
    by (simp add: numeral_3_eq_3 SEQ_LENGTH_def Let_def)
qed

lemma build_and_predict_model_eq:
  assumes "SEQ_LENGTH + 1 \<le> length df"
  shows "\<exists>s. scaler_fit (map moisture df) = Inr s \<and>
          (let moisture_scaled = map (transform s) (map moisture df);
               X = map (\<lambda>i. take SEQ_LENGTH (drop i moisture_scaled))
                     [0..<length moisture_scaled - SEQ_LENGTH];
               y = map (\<lambda>i. moisture_scaled ! (i + SEQ_LENGTH))
                     [0..<length moisture_scaled - SEQ_LENGTH];
               model = fit X y;
               w1 = drop (length moisture_scaled - SEQ_LENGTH) moisture_scaled;
               p1 = model w1;
               w2 = tl w1 @ [p1];
               p2 = model w2;
               w3 = tl w2 @ [p2];
               p3 = model w3
           in build_and_predict_model fit df =
                Inr [(''day1'', inverse_transform s p1),
                     (''day2'', inverse_transform s p2),
                     (''day3'', inverse_transform s p3)])"
proof -
  from assms have ne: "map moisture df \<noteq> []" by (auto simp: SEQ_LENGTH_def)
  then obtain s where s: "scaler_fit (map moisture df) = Inr s"
    by (auto simp: scaler_fit_def Let_def)
  let ?sc = "map (transform s) (map moisture df)"
  have ft: "fit_transform (map moisture df) = Inr (s, ?sc)"
    by (simp add: fit_transform_def s)
  have len: "SEQ_LENGTH + 1 \<le> length ?sc" using assms by simp
  let ?X = "map (\<lambda>i. take SEQ_LENGTH (drop i ?sc)) [0..<length ?sc - SEQ_LENGTH]"
  let ?y = "map (\<lambda>i. ?sc ! (i + SEQ_LENGTH)) [0..<length ?sc - SEQ_LENGTH]"
  have cs: "create_sequences ?sc SEQ_LENGTH = Inr (?X, ?y)"
    by (rule create_sequences_eq)
  have "?X \<noteq> []" using len by simp
  then have rs: "reshape_X ?X = Inr ?X" by (simp add: reshape_X_def)
  let ?w = "drop (length ?sc - SEQ_LENGTH) ?sc"
  have w: "length ?w = SEQ_LENGTH" using len by simp
  note pl = predict_loop_three [OF w, of "fit ?X ?y" s]
  have "build_and_predict_model fit df =
          Inr [(''day1'', inverse_transform s (fit ?X ?y ?w)),
               (''day2'', inverse_transform s (fit ?X ?y (tl ?w @ [fit ?X ?y ?w]))),
               (''day3'', inverse_transform s
                  (fit ?X ?y (tl (tl ?w @ [fit ?X ?y ?w]) @ [fit ?X ?y (tl ?w @ [fit ?X ?y ?w])])))]"
    unfolding build_and_predict_model_def
    by (simp only: ft cs rs pl Let_def sum.case prod.case index_def)
       simp
  with s show ?thesis by (simp add: Let_def del: map_map)
qed

lemma build_and_predict_model_keys:
  assumes "build_and_predict_model fit df = Inr p"
  shows "\<exists>a b c. p = [(''day1'', a), (''day2'', b), (''day3'', c)]"
  using assms
  by (auto simp: build_and_predict_model_def Let_def split: sum.splits prod.splits)

lemma build_and_predict_model_short:
  assumes "length df \<le> SEQ_LENGTH"
  shows "build_and_predict_model fit df = Inl (if df = [] then ValueError else IndexError)"
proof (cases "df = []")
  case True
  then show ?thesis
    by (simp add: build_and_predict_model_def fit_transform_def scaler_fit_def)
next
  case False
  then obtain s where s: "scaler_fit (map moisture df) = Inr s"
    by (auto simp: scaler_fit_def Let_def)
  have cs: "create_sequences (map (transform s) (map moisture df)) SEQ_LENGTH = Inr ([], [])"
    using assms by (simp add: create_sequences_eq)
  show ?thesis
    using False
    by (simp add: build_and_predict_model_def fit_transform_def s cs reshape_X_def del: map_map)
qed

lemma example_forecast:
  "build_and_predict_model (\<lambda>X y w. c)
     (map (\<lambda>m. \<lparr>date = ''2024-01-01 08:00'', moisture = m, temperature = 20, rainfall = 0,
                 light = 300, irrigation = 0\<rparr>) [20, 80, 50, 50]) =
   Inr [(''day1'', 20 + c * 60), (''day2'', 20 + c * 60), (''day3'', 20 + c * 60)]"
proof -
  let ?df = "map (\<lambda>m. \<lparr>date = ''2024-01-01 08:00'', moisture = m, temperature = 20, rainfall = 0,
                 light = 300, irrigation = 0\<rparr>) [20, 80, 50, 50::real]"
  have len: "SEQ_LENGTH + 1 \<le> length ?df" by (simp add: SEQ_LENGTH_def)
  have col: "map moisture ?df = [20, 80, 50, 50]" by simp
  obtain s where s: "scaler_fit (map moisture ?df) = Inr s"
    and b: "build_and_predict_model (\<lambda>X y w. c) ?df =
              Inr [(''day1'', inverse_transform s c), (''day2'', inverse_transform s c),
                   (''day3'', inverse_transform s c)]"
    using build_and_predict_model_eq [OF len, of "\<lambda>X y w. c"] by (auto simp: Let_def)
  have "inverse_transform s c = 20 + c * 60"
    using inverse_transform_fitted [OF s, of c]
    by (simp add: handle_zeros_in_scale_def float64_eps_def)
  with b show ?thesis by simp
qed


section \<open>Properties of the callback and of mail delivery\<close>

lemma pred_send_email_three_keys:
  "\<exists>evs. pred_send_email env m [(''day1'', a), (''day2'', b), (''day3'', c)] =
          Inr (Pred_smtp_attempt (gpio_at_email env) m [(''day1'', a), (''day2'', b), (''day3'', c)] # evs)"
  by (simp add: pred_send_email_def lookup_key_def pred_smtp_conversation_def Let_def
           split: option.splits)

lemma pred_send_email_raises_alike:
  "(case pred_send_email (env\<lparr>smtp_outcome := outcome\<rparr>) m p of Inl e \<Rightarrow> Some e | Inr evs \<Rightarrow> None) =
   (case pred_send_email env m p of Inl e \<Rightarrow> Some e | Inr evs \<Rightarrow> None)"
  by (simp add: pred_send_email_def pred_smtp_conversation_def Let_def
           split: sum.splits option.splits)

lemma dispatch_raises_alike:
  "(case dispatch (env\<lparr>smtp_outcome := outcome\<rparr>) m p of Inl e \<Rightarrow> Some e | Inr evs \<Rightarrow> None) =
   (case dispatch env m p of Inl e \<Rightarrow> Some e | Inr evs \<Rightarrow> None)"
  using pred_send_email_raises_alike [where env = env and outcome = outcome and m = m and p = p]
  by (simp add: dispatch_def Let_def)

lemma moisture_callback_file_and_exception:
  "fst (moisture_callback (env\<lparr>smtp_outcome := outcome\<rparr>) csv) = fst (moisture_callback env csv)
   \<and> snd (snd (moisture_callback (env\<lparr>smtp_outcome := outcome\<rparr>) csv)) =
       snd (snd (moisture_callback env csv))"
proof -
  define m where "m = (if gpio_at_reading env then uniform env 30 35 else uniform env 38 45)"
  have fold_m: "(if gpio_at_reading env then uniform env 30 35 else uniform env 38 45) = m"
    by (simp add: m_def)
  obtain csv' r where
    load: "load_and_update_data (pd_to_datetime env) (now_text env) m csv = (csv', r)"
    by (cases "load_and_update_data (pd_to_datetime env) (now_text env) m csv")
  show ?thesis
  proof (cases r)
    case (Inl e)
    with load show ?thesis by (simp add: moisture_callback_def Let_def fold_m cong: if_cong)
  next
    case (Inr df)
    show ?thesis
    proof (cases "build_and_predict_model (network env) df")
      case (Inl e)
      with load Inr show ?thesis by (simp add: moisture_callback_def Let_def fold_m cong: if_cong)
    next
      case p: (Inr p)
      from dispatch_raises_alike [where env = env and outcome = outcome and m = m and p = p]
      show ?thesis using load Inr p
        by (simp add: moisture_callback_def Let_def fold_m split: sum.splits cong: if_cong)
    qed
  qed
qed

lemma core_judgment_watermark_any_outcome:
  "\<exists>evs evs' w. core_judgment l c (env\<lparr>smtp := outcome\<rparr>) = Inr (evs, w)
               \<and> core_judgment l c (env\<lparr>smtp := None\<rparr>) = Inr (evs', w)"
proof (cases "c = l")
  case True
  then show ?thesis by (simp add: core_judgment_same_hour)
next
  case False
  from core_judgment_advances [OF False, of "env\<lparr>smtp := outcome\<rparr>"]
       core_judgment_advances [OF False, of "env\<lparr>smtp := None\<rparr>"]
  show ?thesis by blast
qed

lemma should_send_dispatch:
  "should_send (dispatch env m [(''day1'', a), (''day2'', b), (''day3'', c)]) =
     (gpio_at_decision env \<or> now_hour env = 8 \<or> now_hour env = 20)"
proof -
  obtain evs where
    "pred_send_email env m [(''day1'', a), (''day2'', b), (''day3'', c)] =
       Inr (Pred_smtp_attempt (gpio_at_email env) m [(''day1'', a), (''day2'', b), (''day3'', c)] # evs)"
    using pred_send_email_three_keys by blast
  then show ?thesis
    by (auto simp: dispatch_def should_send_def Let_def)
qed

text \<open>
  C1, as stated, fails: on a history of four moisture values 20, 80, 50, 50 and a network
  whose normalized output is 2, the three forecast values are 140. Nothing clamps them.
\<close>

theorem forecast_not_clamped_counterexample:
  "SEQ_LENGTH + 1 \<le> length (map (\<lambda>m. \<lparr>date = ''2024-01-01 08:00'', moisture = m, temperature = 20,
                                      rainfall = 0, light = 300, irrigation = 0\<rparr>) [20, 80, 50, 50])
   \<and> build_and_predict_model (\<lambda>X y w. 2)
       (map (\<lambda>m. \<lparr>date = ''2024-01-01 08:00'', moisture = m, temperature = 20, rainfall = 0,
                   light = 300, irrigation = 0\<rparr>) [20, 80, 50, 50]) =
     Inr [(''day1'', 140), (''day2'', 140), (''day3'', 140)]
   \<and> \<not> (140::real) \<le> 100"
  using example_forecast [of 2] by (simp add: SEQ_LENGTH_def)

text \<open>
  C1, amended. For every history with at least \<open>SEQ_LENGTH + 1\<close> rows,
  \<^verbatim>\<open>build_and_predict_model\<close> returns exactly the three values \<^verbatim>\<open>day1\<close>,
  \<^verbatim>\<open>day2\<close>, \<^verbatim>\<open>day3\<close>. The network is fitted on the windows and targets of the
  normalized moisture column. The first value is \<^verbatim>\<open>scaler.inverse_transform\<close> of its
  output on the last \<open>SEQ_LENGTH\<close> normalized values; each next value is that of its output
  on the window with the oldest value dropped and the previous output appended. The values
  are returned as computed: no clamp is applied to them.
\<close>

theorem forecast_three_values_unclamped:
  assumes "SEQ_LENGTH + 1 \<le> length df"
  shows "\<exists>s moisture_scaled X y.
           fit_transform (map moisture df) = Inr (s, moisture_scaled)
           \<and> create_sequences moisture_scaled SEQ_LENGTH = Inr (X, y)
           \<and> (let model = fit X y;
                   w1 = drop (length moisture_scaled - SEQ_LENGTH) moisture_scaled;
                   p1 = model w1;
                   w2 = tl w1 @ [p1];
                   p2 = model w2;
                   w3 = tl w2 @ [p2];
                   p3 = model w3
               in build_and_predict_model fit df =
                    Inr [(''day1'', inverse_transform s p1),
                         (''day2'', inverse_transform s p2),
                         (''day3'', inverse_transform s p3)])"
proof -
  obtain s where s: "scaler_fit (map moisture df) = Inr s"
    and b: "let moisture_scaled = map (transform s) (map moisture df);
               X = map (\<lambda>i. take SEQ_LENGTH (drop i moisture_scaled))
                     [0..<length moisture_scaled - SEQ_LENGTH];
               y = map (\<lambda>i. moisture_scaled ! (i + SEQ_LENGTH))
                     [0..<length moisture_scaled - SEQ_LENGTH];
               model = fit X y;
               w1 = drop (length moisture_scaled - SEQ_LENGTH) moisture_scaled;
               p1 = model w1;
               w2 = tl w1 @ [p1];
               p2 = model w2;
               w3 = tl w2 @ [p2];
               p3 = model w3
           in build_and_predict_model fit df =
                Inr [(''day1'', inverse_transform s p1),
                     (''day2'', inverse_transform s p2),
                     (''day3'', inverse_transform s p3)]"
    using build_and_predict_model_eq [OF assms, of fit] by (elim exE conjE)
  let ?sc = "map (transform s) (map moisture df)"
  have ft: "fit_transform (map moisture df) = Inr (s, ?sc)"
    by (simp add: fit_transform_def s)
  have cs: "create_sequences ?sc SEQ_LENGTH =
              Inr (map (\<lambda>i. take SEQ_LENGTH (drop i ?sc)) [0..<length ?sc - SEQ_LENGTH],
                   map (\<lambda>i. ?sc ! (i + SEQ_LENGTH)) [0..<length ?sc - SEQ_LENGTH])"
    by (rule create_sequences_eq)
  note b' = b [unfolded Let_def]
  show ?thesis
    unfolding Let_def
    apply (rule exI [of _ s], rule exI [of _ ?sc])
    apply (intro exI conjI)
      apply (rule ft)
     apply (rule cs)
    apply (rule b')
    done
qed

theorem forecast_three_values_unclamped_witness:
  "SEQ_LENGTH + 1 \<le> length (map (\<lambda>m. \<lparr>date = ''2024-01-01 08:00'', moisture = m, temperature = 20,
                                      rainfall = 0, light = 300, irrigation = 0\<rparr>) [20, 80, 50, 50])
   \<and> (\<exists>s moisture_scaled X y.
        fit_transform [20, 80, 50, 50] = Inr (s, moisture_scaled)
        \<and> create_sequences moisture_scaled SEQ_LENGTH = Inr (X, y)
        \<and> build_and_predict_model (\<lambda>X y w. 1 / 2)
            (map (\<lambda>m. \<lparr>date = ''2024-01-01 08:00'', moisture = m, temperature = 20, rainfall = 0,
                        light = 300, irrigation = 0\<rparr>) [20, 80, 50, 50]) =
            Inr [(''day1'', inverse_transform s (1 / 2)), (''day2'', inverse_transform s (1 / 2)),
                 (''day3'', inverse_transform s (1 / 2))])"
proof -
  let ?df = "map (\<lambda>m. \<lparr>date = ''2024-01-01 08:00'', moisture = m, temperature = 20,
                       rainfall = 0, light = 300, irrigation = 0\<rparr>) [20, 80, 50, 50::real]"
  have len: "SEQ_LENGTH + 1 \<le> length ?df" by (simp add: SEQ_LENGTH_def)
  have col: "map moisture ?df = [20, 80, 50, 50]" by simp
  from forecast_three_values_unclamped [OF len, of "\<lambda>X y w. 1 / 2"]
  have "\<exists>s moisture_scaled X y.
        fit_transform [20, 80, 50, 50] = Inr (s, moisture_scaled)
        \<and> create_sequences moisture_scaled SEQ_LENGTH = Inr (X, y)
        \<and> build_and_predict_model (\<lambda>X y w. 1 / 2) ?df =
            Inr [(''day1'', inverse_transform s (1 / 2)), (''day2'', inverse_transform s (1 / 2)),
                 (''day3'', inverse_transform s (1 / 2))]"
    unfolding Let_def col .
  with len show ?thesis by (rule conjI)
qed

text \<open>
  C2. For a positive window length and a series with at least one value more than it,
  \<^verbatim>\<open>create_sequences\<close> returns \<open>len(series) - seq_len\<close> windows and as many targets;
  window \<open>i\<close> is the slice \<open>series[i : i + seq_len]\<close>, which has \<open>seq_len\<close> values, its
  target is \<open>series[i + seq_len]\<close>, and the windows come in the order of the series.
\<close>

theorem windowing_counts_and_contents:
  assumes "0 < seq_len" and "seq_len + 1 \<le> length series"
  shows "\<exists>X y. create_sequences series seq_len = Inr (X, y)
           \<and> length X = length series - seq_len
           \<and> length y = length series - seq_len
           \<and> X = map (\<lambda>i. take seq_len (drop i series)) [0..<length series - seq_len]
           \<and> y = map (\<lambda>i. series ! (i + seq_len)) [0..<length series - seq_len]
           \<and> (\<forall>i < length series - seq_len.
                 X ! i = take seq_len (drop i series)
                 \<and> length (X ! i) = seq_len
                 \<and> y ! i = series ! (i + seq_len))"
proof -
  let ?n = "length series - seq_len"
  let ?X = "map (\<lambda>i. take seq_len (drop i series)) [0..<?n]"
  let ?y = "map (\<lambda>i. series ! (i + seq_len)) [0..<?n]"
  have cs: "create_sequences series seq_len = Inr (?X, ?y)"
    by (rule create_sequences_eq)
  have each: "?X ! i = take seq_len (drop i series) \<and> length (?X ! i) = seq_len
              \<and> ?y ! i = series ! (i + seq_len)" if "i < ?n" for i
    using that by simp
  show ?thesis
    using cs each by simp
qed

theorem windowing_counts_and_contents_witness:
  "(0::nat) < 3 \<and> 3 + 1 \<le> length [10, 20, 30, 40, 50 :: real]
   \<and> create_sequences [10, 20, 30, 40, 50] 3 = Inr ([[10, 20, 30], [20, 30, 40]], [40, 50])"
proof -
  have h1: "(0::nat) < 3" by simp
  have h2: "3 + 1 \<le> length [10, 20, 30, 40, 50 :: real]" by simp
  have upt: "[0..<length [10, 20, 30, 40, 50 :: real] - 3] = [0, 1]"
    by (simp add: upt_rec)
  from windowing_counts_and_contents [OF h1 h2]
  have "create_sequences [10, 20, 30, 40, 50] 3 = Inr ([[10, 20, 30], [20, 30, 40]], [40, 50])"
    unfolding upt by auto
  with h1 h2 show ?thesis by simp
qed

text \<open>
  C3, as stated, fails: on a series of three values and a window length of three the
  function returns normally, with no window and no target.
\<close>

theorem windowing_short_series_counterexample:
  "length [10, 20, 30 :: real] \<le> 3
   \<and> create_sequences [10, 20, 30] 3 = Inr ([], [])
   \<and> \<not> isl (create_sequences [10, 20, 30] 3)"
  by (simp add: create_sequences_eq)

text \<open>
  C3, amended. For a series no longer than the window length, \<^verbatim>\<open>create_sequences\<close>
  raises nothing and returns no window and no target. The failure on a short history comes
  later, in \<^verbatim>\<open>build_and_predict_model\<close>: the reshape of the empty window array raises
  an \<^verbatim>\<open>IndexError\<close>, and the scaler raises a \<^verbatim>\<open>ValueError\<close> on an empty history.
\<close>

theorem windowing_short_series_empty:
  assumes "length series \<le> seq_len"
  shows "create_sequences series seq_len = Inr ([], [])
         \<and> (length df \<le> SEQ_LENGTH \<longrightarrow>
              build_and_predict_model fit df = Inl (if df = [] then ValueError else IndexError))"
  using assms build_and_predict_model_short [of df fit]
  by (simp add: create_sequences_eq)

theorem windowing_short_series_empty_witness:
  "length [10, 20, 30 :: real] \<le> 3
   \<and> length (map (\<lambda>m. \<lparr>date = ''2024-01-01 08:00'', moisture = m, temperature = 20,
                        rainfall = 0, light = 300, irrigation = 0\<rparr>) [20, 80, 50]) \<le> SEQ_LENGTH
   \<and> create_sequences [10, 20, 30] 3 = Inr ([], [])
   \<and> build_and_predict_model (\<lambda>X y w. 1 / 2)
       (map (\<lambda>m. \<lparr>date = ''2024-01-01 08:00'', moisture = m, temperature = 20,
                   rainfall = 0, light = 300, irrigation = 0\<rparr>) [20, 80, 50]) = Inl IndexError"
  using windowing_short_series_empty
          [where series = "[10, 20, 30]" and seq_len = 3
             and df = "map (\<lambda>m. \<lparr>date = ''2024-01-01 08:00'', moisture = m, temperature = 20,
                        rainfall = 0, light = 300, irrigation = 0\<rparr>) [20, 80, 50]"
             and fit = "\<lambda>X y w. 1 / 2"]
  by (simp add: SEQ_LENGTH_def)

text \<open>
  C4. Whenever the callback reaches its last statement with the forecast of
  \<^verbatim>\<open>build_and_predict_model\<close>: if the pin reads dry, a mail is sent; if it reads wet, a
  mail is sent exactly when the current hour is 8 or 20.
\<close>

theorem strategy_a_decision:
  assumes "build_and_predict_model fit df = Inr prediction_result"
  shows "(gpio_at_decision env \<longrightarrow> should_send (dispatch env m prediction_result))
         \<and> (\<not> gpio_at_decision env \<longrightarrow>
              should_send (dispatch env m prediction_result) = (now_hour env \<in> {8, 20}))"
proof -
  obtain a b c where "prediction_result = [(''day1'', a), (''day2'', b), (''day3'', c)]"
    using build_and_predict_model_keys [OF assms] by blast
  then show ?thesis
    by (simp add: should_send_dispatch)
qed

theorem strategy_a_decision_witness:
  "build_and_predict_model (\<lambda>X y w. 1 / 2)
     (map (\<lambda>m. \<lparr>date = ''2024-01-01 08:00'', moisture = m, temperature = 20, rainfall = 0,
                 light = 300, irrigation = 0\<rparr>) [20, 80, 50, 50]) =
     Inr [(''day1'', 50), (''day2'', 50), (''day3'', 50)]
   \<and> should_send (dispatch
        \<lparr>gpio_at_reading = True, gpio_at_decision = True, gpio_at_email = True,
         uniform = (\<lambda>lo hi. lo), pd_to_datetime = (\<lambda>col. Inr (\<lambda>d. d)),
         now_text = ''2024-01-02 03:00'', now_hour = 3,
         network = (\<lambda>X y w. 1 / 2), smtp_outcome = None\<rparr>
        32 [(''day1'', 50), (''day2'', 50), (''day3'', 50)])
   \<and> should_send (dispatch
        \<lparr>gpio_at_reading = False, gpio_at_decision = False, gpio_at_email = False,
         uniform = (\<lambda>lo hi. lo), pd_to_datetime = (\<lambda>col. Inr (\<lambda>d. d)),
         now_text = ''2024-01-02 08:00'', now_hour = 8,
         network = (\<lambda>X y w. 1 / 2), smtp_outcome = None\<rparr>
        40 [(''day1'', 50), (''day2'', 50), (''day3'', 50)])
   \<and> \<not> should_send (dispatch
        \<lparr>gpio_at_reading = False, gpio_at_decision = False, gpio_at_email = False,
         uniform = (\<lambda>lo hi. lo), pd_to_datetime = (\<lambda>col. Inr (\<lambda>d. d)),
         now_text = ''2024-01-02 03:00'', now_hour = 3,
         network = (\<lambda>X y w. 1 / 2), smtp_outcome = None\<rparr>
        40 [(''day1'', 50), (''day2'', 50), (''day3'', 50)])"
proof -
  let ?df = "map (\<lambda>m. \<lparr>date = ''2024-01-01 08:00'', moisture = m, temperature = 20, rainfall = 0,
                 light = 300, irrigation = 0\<rparr>) [20, 80, 50, 50::real]"
  let ?p = "[(''day1'', 50), (''day2'', 50), (''day3'', 50::real)]"
  have b: "build_and_predict_model (\<lambda>X y w. 1 / 2) ?df = Inr ?p"
    using example_forecast [of "1 / 2"] by simp
  note d = strategy_a_decision [OF b]
  show ?thesis
    using b
      d [of "\<lparr>gpio_at_reading = True, gpio_at_decision = True, gpio_at_email = True,
         uniform = (\<lambda>lo hi. lo), pd_to_datetime = (\<lambda>col. Inr (\<lambda>d. d)),
         now_text = ''2024-01-02 03:00'', now_hour = 3,
         network = (\<lambda>X y w. 1 / 2), smtp_outcome = None\<rparr>" 32]
      d [of "\<lparr>gpio_at_reading = False, gpio_at_decision = False, gpio_at_email = False,
         uniform = (\<lambda>lo hi. lo), pd_to_datetime = (\<lambda>col. Inr (\<lambda>d. d)),
         now_text = ''2024-01-02 08:00'', now_hour = 8,
         network = (\<lambda>X y w. 1 / 2), smtp_outcome = None\<rparr>" 40]
      d [of "\<lparr>gpio_at_reading = False, gpio_at_decision = False, gpio_at_email = False,
         uniform = (\<lambda>lo hi. lo), pd_to_datetime = (\<lambda>col. Inr (\<lambda>d. d)),
         now_text = ''2024-01-02 03:00'', now_hour = 3,
         network = (\<lambda>X y w. 1 / 2), smtp_outcome = None\<rparr>" 40]
    by simp
qed

text \<open>
  C8. A failing SMTP conversation does not leave \<^verbatim>\<open>send_email\<close> as an exception, in
  either script. In the polling loop the iteration returns and stores the same hour as after
  a successful send. In the callback the content of the CSV history and the exception that
  leaves the callback, if any, are the same as after a successful send.
\<close>

theorem delivery_failure_contained:
  "(\<exists>evs. mail_send_email (Some e) reading = Inr evs)
   \<and> (\<exists>evs evs' w. core_judgment l c (env\<lparr>smtp := Some e\<rparr>) = Inr (evs, w)
                  \<and> core_judgment l c (env\<lparr>smtp := None\<rparr>) = Inr (evs', w))
   \<and> (\<exists>evs. pred_send_email (cenv\<lparr>smtp_outcome := Some e\<rparr>) m
               [(''day1'', a), (''day2'', b), (''day3'', d)] = Inr evs)
   \<and> fst (moisture_callback (cenv\<lparr>smtp_outcome := Some e\<rparr>) file) =
       fst (moisture_callback (cenv\<lparr>smtp_outcome := None\<rparr>) file)
   \<and> snd (snd (moisture_callback (cenv\<lparr>smtp_outcome := Some e\<rparr>) file)) =
       snd (snd (moisture_callback (cenv\<lparr>smtp_outcome := None\<rparr>) file))"
proof -
  have mail: "\<exists>evs. mail_send_email (Some e) reading = Inr evs"
    using mail_send_email_returns by blast
  have loop: "\<exists>evs evs' w. core_judgment l c (env\<lparr>smtp := Some e\<rparr>) = Inr (evs, w)
                  \<and> core_judgment l c (env\<lparr>smtp := None\<rparr>) = Inr (evs', w)"
    by (rule core_judgment_watermark_any_outcome)
  have pred: "\<exists>evs. pred_send_email (cenv\<lparr>smtp_outcome := Some e\<rparr>) m
               [(''day1'', a), (''day2'', b), (''day3'', d)] = Inr evs"
    using pred_send_email_three_keys by blast
  have cb: "fst (moisture_callback (cenv\<lparr>smtp_outcome := Some e\<rparr>) file) =
              fst (moisture_callback (cenv\<lparr>smtp_outcome := None\<rparr>) file)
            \<and> snd (snd (moisture_callback (cenv\<lparr>smtp_outcome := Some e\<rparr>) file)) =
              snd (snd (moisture_callback (cenv\<lparr>smtp_outcome := None\<rparr>) file))"
    using moisture_callback_file_and_exception
            [where env = "cenv\<lparr>smtp_outcome := None\<rparr>" and outcome = "Some e" and csv = "file"]
    by simp
  from mail loop pred cb show ?thesis by blast
qed

end
